theory Spec2Isabelle
  imports Complex_Main "HOL-Library.Log_Nat"
begin

section \<open>JavaScript numbers\<close>

text \<open>
  The service computes with JavaScript numbers, that is IEEE-754 binary64 values. A finite
  double is modelled by the rational it denotes. Every arithmetic operation of the source
  is the exact operation followed by rounding to the nearest double, ties to the even
  significand (\<open>fl\<close>). Three things are left out of the model and said here once: the
  exponent range is not bounded (no overflow to Infinity, no subnormals), there is no NaN,
  and \<open>-0\<close> is the same value as \<open>0\<close>. None of them is reachable from amounts of
  the schema (\<open>DECIMAL(12,2)\<close>), rates (\<open>DECIMAL(5,4)\<close>) and terms (\<open>INTEGER\<close>).
\<close>

type_synonym number = rat

text \<open>Rounding a rational to the nearest integer, ties to even.\<close>

definition rne :: "rat \<Rightarrow> int" where
  "rne q = (let f = \<lfloor>q\<rfloor>; d = q - of_int f in
     if d < 1/2 then f else if 1/2 < d then f + 1 else if even f then f else f + 1)"

text \<open>The binary exponent of a non-zero rational: \<open>2 powi expo x \<le> \<bar>x\<bar> < 2 powi (expo x + 1)\<close>.\<close>

definition expo :: "rat \<Rightarrow> int" where
  "expo x = (let (a, b) = quotient_of \<bar>x\<bar>; k = bitlen a - bitlen b in
     if 2 powi k \<le> \<bar>x\<bar> then k else k - 1)"

text \<open>Rounding to 53 significant bits.\<close>

definition fl :: "rat \<Rightarrow> number" where
  "fl x = (if x = 0 then 0 else
     let u = 2 powi (expo x - 52) in of_int (rne (x / u)) * u)"

definition fadd :: "number \<Rightarrow> number \<Rightarrow> number" where
  "fadd x y = fl (x + y)"

definition fmul :: "number \<Rightarrow> number \<Rightarrow> number" where
  "fmul x y = fl (x * y)"

text \<open>Division; the source only divides by the literals 30 and 365.\<close>

definition fdiv :: "number \<Rightarrow> number \<Rightarrow> number" where
  "fdiv x y = fl (x / y)"

text \<open>
  \<open>Number.prototype.toFixed(2)\<close>: the decimal \<open>n / 100\<close> with \<open>n\<close> the integer
  nearest to \<open>100 * \<bar>x\<bar>\<close>, the larger one on a tie, with the sign of \<open>x\<close>. The
  result here is the value the returned string denotes. From \<open>10^21\<close> on the method
  returns \<open>String(x)\<close>, which denotes a decimal that reads back as \<open>x\<close>.
\<close>

definition toFixed2 :: "number \<Rightarrow> rat" where
  "toFixed2 x =
     (if 10 ^ 21 \<le> \<bar>x\<bar> then x
      else if x < 0 then - (of_int \<lfloor>(- x) * 100 + 1/2\<rfloor> / 100)
      else of_int \<lfloor>x * 100 + 1/2\<rfloor> / 100)"

text \<open>\<open>parseFloat\<close> of a decimal numeral: the nearest double.\<close>

definition parseFloat :: "rat \<Rightarrow> number" where
  "parseFloat d = fl d"

section \<open>Loan products and the loan calculation (borrowers-service.js)\<close>

text \<open>The object \<open>calculateLoanDetails\<close> returns.\<close>

record loan_details =
  product_id :: string
  product_name :: string
  principal_amount :: number
  interest_rate' :: number
  interest_type' :: string
  term_days :: number
  interest_amount :: number
  total_due_amount :: number
  grace_days' :: number
  penalty_type' :: string
  penalty_value' :: number

text \<open>
  A row of \<open>loan_products\<close> as \<open>getProductById\<close> returns it. The numeric columns hold
  the number the driver's text converts to; a NULL \<open>is_active\<close> is falsy and is
  \<open>False\<close> here. The \<open>CHECK\<close> on \<open>interest_type\<close> admits the two literals and
  NULL; a NULL \<open>interest_type\<close> is the empty string here: \<open>null\<close> is not equal to
  either literal, and neither is the empty string.
\<close>

record loan_product =
  name :: string
  interest_type :: string
  interest_rate :: number
  max_amount :: number
  default_term_days :: number
  grace_days :: number
  penalty_type :: string
  penalty_value :: number
  is_active :: bool

type_synonym products = "string \<rightharpoonup> loan_product"

definition getProductById :: "products \<Rightarrow> string \<Rightarrow> loan_product option" where
  "getProductById db productId = db productId"

text \<open>The three \<open>throw new Error(...)\<close> of \<open>calculateLoanDetails\<close>.\<close>

datatype error =
    ProductNotFound
  | ProductNotActive
  | AmountExceedsMaximum

text \<open>
  \<open>termDays || product.default_term_days\<close>: \<open>null\<close> and \<open>undefined\<close> (\<open>None\<close>) and
  \<open>0\<close> are falsy.
\<close>

definition loanTermDays :: "number option \<Rightarrow> loan_product \<Rightarrow> number" where
  "loanTermDays termDays product =
     (case termDays of
        None \<Rightarrow> default_term_days product
      | Some t \<Rightarrow> if t = 0 then default_term_days product else t)"

text \<open>The local variable \<open>interestAmount\<close> after the two branches on the interest type.\<close>

definition interestAmount :: "loan_product \<Rightarrow> number \<Rightarrow> number \<Rightarrow> number" where
  "interestAmount product principalAmount days =
     (if interest_type product = ''flat_monthly'' then
        (let monthlyPeriods = fdiv days 30
         in fmul (fmul principalAmount (interest_rate product)) monthlyPeriods)
      else if interest_type product = ''reducing_balance'' then
        (let dailyRate = fdiv (interest_rate product) 365
         in fmul (fmul principalAmount dailyRate) days)
      else 0)"

text \<open>
  The service method. \<open>principalAmount\<close> is a number, as its only caller passes it;
  \<open>parseFloat(principalAmount)\<close> of a number is the number. A query that fails is not
  modelled: the table is a total lookup.
\<close>

definition calculateLoanDetails ::
  "products \<Rightarrow> string \<Rightarrow> number \<Rightarrow> number option \<Rightarrow> error + loan_details" where
  "calculateLoanDetails db productId principalAmount termDays =
     (case getProductById db productId of
        None \<Rightarrow> Inl ProductNotFound
      | Some product \<Rightarrow>
          if \<not> is_active product then Inl ProductNotActive
          else if principalAmount > max_amount product then Inl AmountExceedsMaximum
          else
            (let days = loanTermDays termDays product;
                 interest = interestAmount product principalAmount days;
                 totalDueAmount = fadd principalAmount interest
             in Inr \<lparr> product_id = productId,
                      product_name = name product,
                      principal_amount = principalAmount,
                      interest_rate' = interest_rate product,
                      interest_type' = interest_type product,
                      term_days = days,
                      interest_amount = parseFloat (toFixed2 interest),
                      total_due_amount = parseFloat (toFixed2 totalDueAmount),
                      grace_days' = grace_days product,
                      penalty_type' = penalty_type product,
                      penalty_value' = penalty_value product \<rparr>))"

text \<open>
  The three products the schema script inserts, under short keys in place of the
  generated ids; \<open>interest_type\<close> and \<open>is_active\<close> take the column defaults.
\<close>

definition student_quick_loan :: loan_product where
  "student_quick_loan =
     \<lparr> name = ''Student Quick Loan'', interest_type = ''flat_monthly'',
       interest_rate = parseFloat (3 / 10), max_amount = 500, default_term_days = 30,
       grace_days = 3, penalty_type = ''fixed'', penalty_value = 50, is_active = True \<rparr>"

definition employee_standard :: loan_product where
  "employee_standard =
     \<lparr> name = ''Employee Standard'', interest_type = ''flat_monthly'',
       interest_rate = parseFloat (1 / 4), max_amount = 2000, default_term_days = 60,
       grace_days = 3, penalty_type = ''percentage'', penalty_value = parseFloat (1 / 20),
       is_active = True \<rparr>"

definition trader_business_loan :: loan_product where
  "trader_business_loan =
     \<lparr> name = ''Trader Business Loan'', interest_type = ''flat_monthly'',
       interest_rate = parseFloat (35 / 100), max_amount = 5000, default_term_days = 90,
       grace_days = 5, penalty_type = ''fixed'', penalty_value = 100, is_active = True \<rparr>"

text \<open>
  The seeded rows are all \<open>flat_monthly\<close>. Three more rows for examples: one of the
  other interest type, one whose \<open>interest_type\<close> is NULL, and that one deactivated.
\<close>

definition reducing_example :: loan_product where
  "reducing_example = employee_standard\<lparr> interest_type := ''reducing_balance'' \<rparr>"

definition null_type_example :: loan_product where
  "null_type_example = employee_standard\<lparr> interest_type := [] \<rparr>"

definition inactive_example :: loan_product where
  "inactive_example = null_type_example\<lparr> is_active := False \<rparr>"

definition seed_products :: products where
  "seed_products =
     [''student'' \<mapsto> student_quick_loan, ''employee'' \<mapsto> employee_standard,
      ''trader'' \<mapsto> trader_business_loan]"


section \<open>The validator and the controller in front of the calculation\<close>

text \<open>
  \<open>POST /api/loan-products/:id/calculate\<close> runs \<open>authenticateToken\<close>,
  \<open>validateUUIDParam('id')\<close>, \<open>validateLoanCalculation\<close> and then the controller
  method, which calls the service. The last two are modelled, each by itself; the first
  two are not, and nothing below is said of the route as a whole. The request body is
  modelled with JSON numbers: \<open>principal_amount\<close> a number, \<open>term_days\<close> a number or
  absent.
\<close>

record calculation_body =
  body_principal_amount :: number
  body_term_days :: "number option"

text \<open>
  The custom check of \<open>principal_amount\<close> counts the digits after the point in
  \<open>value.toString()\<close>. For a number that is the shortest decimal that reads back as the
  number, so it has at most two such digits exactly when some decimal \<open>n / 100\<close> reads
  back as the number; \<open>n\<close> is then the integer nearest to a hundred times the number.
\<close>

definition decimalPlaces_le_2 :: "number \<Rightarrow> bool" where
  "decimalPlaces_le_2 v = (parseFloat (of_int (rne (v * 100)) / 100) = v)"

definition isInt :: "number \<Rightarrow> bool" where
  "isInt v = (of_int \<lfloor>v\<rfloor> = v)"

text \<open>
  \<open>isFloat({ min: 1.00, max: 999999999.99 })\<close> with the custom check, and
  \<open>optional({ checkFalsy: true }).isInt({ min: 1, max: 3650 })\<close>, which skips an absent
  and a falsy (\<open>0\<close>) \<open>term_days\<close>. The value is whether the request goes on to the
  controller; otherwise \<open>handleValidationErrors\<close> answers with the validation error.
\<close>

definition validateLoanCalculation :: "calculation_body \<Rightarrow> bool" where
  "validateLoanCalculation body =
     ((1 \<le> body_principal_amount body
        \<and> body_principal_amount body \<le> parseFloat (99999999999 / 100)
        \<and> decimalPlaces_le_2 (body_principal_amount body))
      \<and> (case body_term_days body of
            None \<Rightarrow> True
          | Some t \<Rightarrow> t = 0 \<or> (isInt t \<and> 1 \<le> t \<and> t \<le> 3650)))"

text \<open>The number of decimal digits of a positive integer.\<close>

function digits10 :: "int \<Rightarrow> int" where
  "digits10 a = (if a \<le> 0 then 0 else 1 + digits10 (a div 10))"
  by pat_completeness auto
termination
  by (relation "measure nat") auto

text \<open>The decimal exponent of a non-zero rational: \<open>10 powi e10 x \<le> \<bar>x\<bar> < 10 powi (e10 x + 1)\<close>.\<close>

definition e10 :: "rat \<Rightarrow> int" where
  "e10 x = (let (a, b) = quotient_of \<bar>x\<bar>; k = digits10 a - digits10 b
            in if 10 powi k \<le> \<bar>x\<bar> then k else k - 1)"

text \<open>
  The first digit of \<open>String(v)\<close>, the shortest decimal that reads back as \<open>v\<close>: the
  first digit of \<open>v\<close> itself, unless the next one-digit decimal above reads back as
  \<open>v\<close> and so is that shortest decimal.
\<close>

definition leading_digit :: "number \<Rightarrow> int" where
  "leading_digit v =
     (let e = e10 v; l = \<lfloor>\<bar>v\<bar> / 10 powi e\<rfloor>
      in if parseFloat (of_int (l + 1) * 10 powi e) = \<bar>v\<bar>
         then (if l = 9 then 1 else l + 1) else l)"

text \<open>
  \<open>parseInt\<close> of a number reads the integer at the head of \<open>String(v)\<close>. From
  \<open>1e-6\<close> up to \<open>1e21\<close> the string has no exponent and the integer is the number
  truncated towards zero; outside, the string is one digit, a fraction and an exponent,
  and the integer is that digit.
\<close>

definition parseInt :: "number \<Rightarrow> number" where
  "parseInt v =
     (if v = 0 then 0
      else if parseFloat (1 / 10 ^ 6) \<le> \<bar>v\<bar> \<and> \<bar>v\<bar> < 10 ^ 21
      then (if v < 0 then of_int \<lceil>v\<rceil> else of_int \<lfloor>v\<rfloor>)
      else sgn v * of_int (leading_digit v))"

datatype response =
    is_Success: Success loan_details
  | NotFound
  | BadRequest
  | InternalError

text \<open>
  The controller's \<open>calculateLoanDetails\<close>: \<open>parseFloat(principal_amount)\<close> of a
  number is the number, \<open>term_days ? parseInt(term_days) : null\<close>, and the \<open>catch\<close>
  maps the message of the error to a response. \<open>InternalError\<close> is the answer to any
  other error (a failing query), which the model of the table does not raise.
\<close>

definition calculateLoanDetails_controller ::
  "products \<Rightarrow> string \<Rightarrow> calculation_body \<Rightarrow> response" where
  "calculateLoanDetails_controller db ident body =
     (case calculateLoanDetails db ident (body_principal_amount body)
             (case body_term_days body of
                None \<Rightarrow> None
              | Some t \<Rightarrow> if t = 0 then None else Some (parseInt t)) of
        Inr calculationResult \<Rightarrow> Success calculationResult
      | Inl ProductNotFound \<Rightarrow> NotFound
      | Inl ProductNotActive \<Rightarrow> BadRequest
      | Inl AmountExceedsMaximum \<Rightarrow> BadRequest)"

text \<open>
  The rounding the spec asks for, on exact amounts: to two decimals, a half cent away
  from zero.
\<close>

definition round_half_up_2 :: "rat \<Rightarrow> rat" where
  "round_half_up_2 q =
     (if q < 0 then - (of_int \<lfloor>(- q) * 100 + 1/2\<rfloor> / 100)
      else of_int \<lfloor>q * 100 + 1/2\<rfloor> / 100)"

section \<open>Repayment allocation\<close>

text \<open>Amounts of the ledger and of allocations are fixed-point with two digits: cents.\<close>

type_synonym cents = int

text \<open>
  Modelled from the spec: the argument and the result of the allocator, and its one error,
  as the spec's contract of \<open>allocate\<close> names them.
\<close>

record outstanding =
  penalty :: cents
  interest :: cents
  principal :: cents

record allocation =
  allocPenalty :: cents
  allocInterest :: cents
  allocPrincipal :: cents
  overpayment :: cents

datatype allocation_error = ValidationError

text \<open>
  Modelled from the spec: the repayment allocator \<open>allocate\<close> is not in the repository
  (only the table \<open>repayments\<close> with its three allocation columns is). The spec's
  words: the order is penalty, interest, principal; each bucket absorbs the minimum of the
  remaining payment and the bucket's outstanding amount; a negative outstanding bucket
  counts as zero; what exceeds the total outstanding is returned as overpayment; a payment
  of zero (or less) is rejected.
\<close>

definition allocate :: "outstanding \<Rightarrow> cents \<Rightarrow> allocation_error + allocation" where
  "allocate out amountPaid =
     (if amountPaid \<le> 0 then Inl ValidationError
      else
        (let toPenalty = min amountPaid (max 0 (penalty out));
             afterPenalty = amountPaid - toPenalty;
             toInterest = min afterPenalty (max 0 (interest out));
             afterInterest = afterPenalty - toInterest;
             toPrincipal = min afterInterest (max 0 (principal out))
         in Inr \<lparr> allocPenalty = toPenalty, allocInterest = toInterest,
                  allocPrincipal = toPrincipal,
                  overpayment = afterInterest - toPrincipal \<rparr>))"

section \<open>The vault tables and the balance trigger (Loan-Management.session.sql)\<close>

type_synonym uuid = nat

datatype entry_type = Debit | Credit

datatype account_type = Cash | Bank | Mobile_money | Operating_expense | Loan_fund

datatype transaction_type =
    Loan_disbursement | Loan_repayment | Penalty_collection | Operating_expense_txn
  | Capital_injection | Bank_deposit | Bank_withdrawal | Momo_transfer
  | Cash_deposit | Cash_withdrawal

datatype transaction_status = Pending | Completed | Failed | Cancelled

text \<open>Rows of the three tables; text and timestamp columns that no rule reads are left out.\<close>

record vault_account =
  account_name :: string
  account_kind :: account_type
  current_balance :: cents

record vault_transaction =
  txn_id :: uuid
  transaction_code :: nat
  transaction_kind :: transaction_type
  total_amount :: cents
  status :: transaction_status

record vault_transaction_entry =
  transaction_id :: uuid
  vault_account_id :: uuid
  entry_kind :: entry_type
  amount :: cents
  balance_after :: cents

record ledger =
  vault_accounts :: "uuid \<rightharpoonup> vault_account"
  vault_transactions :: "vault_transaction list"
  vault_transaction_entries :: "vault_transaction_entry list"

text \<open>
  The errors of an insert: a value outside its \<open>DECIMAL(15,2)\<close> column, a violated
  foreign key, a violated primary key or \<open>UNIQUE\<close> constraint.
\<close>

datatype sql_error = NumericValueOutOfRange | ForeignKeyViolation | UniqueViolation

text \<open>\<open>DECIMAL(15,2)\<close>: at most thirteen digits before the point, so below \<open>10^15\<close> cents.\<close>

definition decimal_15_2 :: "cents \<Rightarrow> bool" where
  "decimal_15_2 c = (\<bar>c\<bar> < 10 ^ 15)"

text \<open>
  The trigger function: \<open>UPDATE vault_accounts SET current_balance = NEW.balance_after
  WHERE id = NEW.vault_account_id\<close>.
\<close>

definition update_vault_balance :: "ledger \<Rightarrow> vault_transaction_entry \<Rightarrow> ledger" where
  "update_vault_balance s new =
     (case vault_accounts s (vault_account_id new) of
        None \<Rightarrow> s
      | Some acc \<Rightarrow>
          s\<lparr> vault_accounts :=
                (vault_accounts s)(vault_account_id new \<mapsto>
                   acc\<lparr> current_balance := balance_after new \<rparr>) \<rparr>)"

text \<open>
  \<open>INSERT INTO vault_transaction_entries\<close>: the two amounts must fit their columns, the
  two foreign keys are checked, the row is appended, and the \<open>AFTER INSERT\<close> trigger
  runs for it. The table has no other constraint on \<open>amount\<close> or \<open>balance_after\<close>.
\<close>

definition insert_vault_transaction_entry ::
  "ledger \<Rightarrow> vault_transaction_entry \<Rightarrow> sql_error + ledger" where
  "insert_vault_transaction_entry s new =
     (if \<not> decimal_15_2 (amount new) \<or> \<not> decimal_15_2 (balance_after new)
      then Inl NumericValueOutOfRange
      else if transaction_id new \<notin> set (map txn_id (vault_transactions s))
      then Inl ForeignKeyViolation
      else if vault_accounts s (vault_account_id new) = None then Inl ForeignKeyViolation
      else Inr (update_vault_balance
                  (s\<lparr> vault_transaction_entries := vault_transaction_entries s @ [new] \<rparr>) new))"

text \<open>
  \<open>INSERT INTO vault_transactions\<close>: \<open>total_amount\<close> must fit its column, and the id
  (primary key) and the \<open>transaction_code\<close> (\<open>UNIQUE\<close>) must be new.
\<close>

definition insert_vault_transaction ::
  "ledger \<Rightarrow> vault_transaction \<Rightarrow> sql_error + ledger" where
  "insert_vault_transaction s new =
     (if \<not> decimal_15_2 (total_amount new) then Inl NumericValueOutOfRange
      else if txn_id new \<in> set (map txn_id (vault_transactions s))
              \<or> transaction_code new \<in> set (map transaction_code (vault_transactions s))
      then Inl UniqueViolation
      else Inr (s\<lparr> vault_transactions := vault_transactions s @ [new] \<rparr>))"




section \<open>Posting to the ledger\<close>

text \<open>
  Modelled from the spec: everything in this section stands for \<open>VaultLedger.post\<close>,
  which is not in the repository. An entry of a request names the account, the type and
  the amount; the errors are those of the spec's taxonomy that a posting can meet.
\<close>

record entry_request =
  rq_account :: uuid
  rq_kind :: entry_type
  rq_amount :: cents

datatype ledger_error = ConstraintViolation | NotFoundError | ConflictError

text \<open>
  Modelled from the spec: a failure of the store is wrapped into the taxonomy, a
  uniqueness violation as \<open>ConflictError\<close>, any other as \<open>ConstraintViolation\<close>.
\<close>

definition wrap_sql_error :: "sql_error \<Rightarrow> ledger_error" where
  "wrap_sql_error err = (case err of UniqueViolation \<Rightarrow> ConflictError | _ \<Rightarrow> ConstraintViolation)"

text \<open>Modelled from the spec: the two sums the precondition of \<open>post\<close> compares.\<close>

definition debit_sum :: "entry_request list \<Rightarrow> cents" where
  "debit_sum rs = sum_list (map rq_amount (filter (\<lambda>r. rq_kind r = Debit) rs))"

definition credit_sum :: "entry_request list \<Rightarrow> cents" where
  "credit_sum rs = sum_list (map rq_amount (filter (\<lambda>r. rq_kind r = Credit) rs))"

text \<open>
  Modelled from the spec: the entries of one request, in order. Each gets as
  \<open>balance_after\<close> the prior balance of its account adjusted by the entry; a balance
  that would be negative is a \<open>ConstraintViolation\<close> (the spec's error taxonomy:
  negative balances detected before commit); the entry is then inserted through the
  schema's insert and trigger.
\<close>

fun post_entries :: "ledger \<Rightarrow> uuid \<Rightarrow> entry_request list \<Rightarrow> ledger_error + ledger" where
  "post_entries s tid [] = Inr s"
| "post_entries s tid (r # rs) =
     (case vault_accounts s (rq_account r) of
        None \<Rightarrow> Inl NotFoundError
      | Some acc \<Rightarrow>
          (let new = \<lparr> transaction_id = tid, vault_account_id = rq_account r,
                       entry_kind = rq_kind r, amount = rq_amount r,
                       balance_after = current_balance acc
                         + (case rq_kind r of Debit \<Rightarrow> - rq_amount r | Credit \<Rightarrow> rq_amount r) \<rparr>
           in if balance_after new < 0 then Inl ConstraintViolation
              else case insert_vault_transaction_entry s new of
                     Inl err \<Rightarrow> Inl (wrap_sql_error err)
                   | Inr s' \<Rightarrow> post_entries s' tid rs))"

text \<open>
  Modelled from the spec: \<open>VaultLedger.post\<close> is not in the repository (only the vault
  tables and the balance trigger are). The spec's words: the entries are non-empty, their
  debits and credits have the same sum and every amount is strictly positive, otherwise
  the posting is a \<open>ConstraintViolation\<close> and nothing is applied; an unknown account is
  a \<open>NotFoundError\<close>; the transaction gets the next code of a sequence; each entry
  gets \<open>balance_after\<close> from the prior balance of its account, and the account's
  \<open>current_balance\<close> follows (here through the trigger of the schema); a negative
  balance is a \<open>ConstraintViolation\<close>; on any error nothing is applied. The result is
  the outcome together with the ledger after the call.
\<close>

definition post ::
  "ledger \<Rightarrow> transaction_type \<Rightarrow> entry_request list
     \<Rightarrow> (ledger_error + vault_transaction) \<times> ledger" where
  "post s kind rs =
     (if rs = [] \<or> debit_sum rs \<noteq> credit_sum rs \<or> (\<exists>r \<in> set rs. rq_amount r \<le> 0)
      then (Inl ConstraintViolation, s)
      else if \<exists>r \<in> set rs. vault_accounts s (rq_account r) = None
      then (Inl NotFoundError, s)
      else
        (let n = length (vault_transactions s);
             txn = \<lparr> txn_id = n, transaction_code = Suc n, transaction_kind = kind,
                     total_amount = debit_sum rs, status = Completed \<rparr>
         in case insert_vault_transaction s txn of
              Inl err \<Rightarrow> (Inl (wrap_sql_error err), s)
            | Inr s1 \<Rightarrow>
                (case post_entries s1 n rs of
                   Inl err \<Rightarrow> (Inl err, s)
                 | Inr s' \<Rightarrow> (Inr txn, s'))))"

text \<open>A sequence of calls of \<open>post\<close>, each on the ledger the one before left.\<close>

fun post_all :: "ledger \<Rightarrow> (transaction_type \<times> entry_request list) list \<Rightarrow> ledger" where
  "post_all s [] = s"
| "post_all s ((kind, rs) # reqs) = post_all (snd (post s kind rs)) reqs"

text \<open>The debit and credit totals of one transaction among the stored entries.\<close>

definition debit_total :: "vault_transaction_entry list \<Rightarrow> uuid \<Rightarrow> cents" where
  "debit_total es tid =
     sum_list (map amount (filter (\<lambda>e. transaction_id e = tid \<and> entry_kind e = Debit) es))"

definition credit_total :: "vault_transaction_entry list \<Rightarrow> uuid \<Rightarrow> cents" where
  "credit_total es tid =
     sum_list (map amount (filter (\<lambda>e. transaction_id e = tid \<and> entry_kind e = Credit) es))"

definition balanced :: "ledger \<Rightarrow> bool" where
  "balanced s =
     (\<forall>t \<in> set (vault_transactions s).
        debit_total (vault_transaction_entries s) (txn_id t)
          = credit_total (vault_transaction_entries s) (txn_id t))"

text \<open>
  Transactions are numbered in the order they were created, and every entry belongs to
  one of them (the foreign key of the entries table).
\<close>

definition numbered :: "ledger \<Rightarrow> bool" where
  "numbered s =
     ((\<forall>t \<in> set (vault_transactions s). txn_id t < length (vault_transactions s))
      \<and> (\<forall>e \<in> set (vault_transaction_entries s).
            transaction_id e < length (vault_transactions s)))"

text \<open>
  The five accounts the schema script inserts, numbered in place of the generated ids,
  each with the column default 0 as balance, and no transaction yet.
\<close>

definition seed_ledger :: ledger where
  "seed_ledger =
     \<lparr> vault_accounts =
         [0 \<mapsto> \<lparr> account_name = ''Main Cash Vault'', account_kind = Cash, current_balance = 0 \<rparr>,
          1 \<mapsto> \<lparr> account_name = ''Business Bank Account'', account_kind = Bank,
                 current_balance = 0 \<rparr>,
          2 \<mapsto> \<lparr> account_name = ''MTN Mobile Money'', account_kind = Mobile_money,
                 current_balance = 0 \<rparr>,
          3 \<mapsto> \<lparr> account_name = ''Loan Fund'', account_kind = Loan_fund, current_balance = 0 \<rparr>,
          4 \<mapsto> \<lparr> account_name = ''Operating Expenses'', account_kind = Operating_expense,
                 current_balance = 0 \<rparr>],
       vault_transactions = [],
       vault_transaction_entries = [] \<rparr>"

text \<open>The same accounts with an opening balance of 5000.00 in the loan fund.\<close>

definition opening_ledger :: ledger where
  "opening_ledger =
     seed_ledger\<lparr> vault_accounts :=
       (vault_accounts seed_ledger)
         (3 \<mapsto> \<lparr> account_name = ''Loan Fund'', account_kind = Loan_fund,
                 current_balance = 500000 \<rparr>) \<rparr>"

text \<open>A disbursement of 1000.00: out of the loan fund, into cash.\<close>

definition disbursement_1000 :: "entry_request list" where
  "disbursement_1000 =
     [\<lparr> rq_account = 3, rq_kind = Debit, rq_amount = 100000 \<rparr>,
      \<lparr> rq_account = 0, rq_kind = Credit, rq_amount = 100000 \<rparr>]"

text \<open>A deposit of 300.00 of cash, part into the bank and part into mobile money.\<close>

definition deposit_300 :: "entry_request list" where
  "deposit_300 =
     [\<lparr> rq_account = 0, rq_kind = Debit, rq_amount = 30000 \<rparr>,
      \<lparr> rq_account = 1, rq_kind = Credit, rq_amount = 25000 \<rparr>,
      \<lparr> rq_account = 2, rq_kind = Credit, rq_amount = 5000 \<rparr>]"

section \<open>Properties of the rounding\<close>

subsection \<open>The exponent\<close>

lemma bitlen_bounds_rat:
  assumes "0 < a"
  shows "(2::rat) powi (bitlen a - 1) \<le> of_int a" "(of_int a :: rat) < 2 powi bitlen a"
proof -
  from assms have b1: "1 \<le> bitlen a" by (auto simp: bitlen_alt_def)
  have lo: "2 ^ nat (bitlen a - 1) \<le> a" and hi: "a < 2 ^ nat (bitlen a)"
    using bitlen_bounds [OF assms] by auto
  have "(of_int (2 ^ nat (bitlen a - 1)) :: rat) \<le> of_int a"
    using lo by (simp only: of_int_le_iff)
  then show "(2::rat) powi (bitlen a - 1) \<le> of_int a"
    using b1 by (simp add: power_int_nonneg_exp)
  have "(of_int a :: rat) < of_int (2 ^ nat (bitlen a))"
    using hi by (simp only: of_int_less_iff)
  then show "(of_int a :: rat) < 2 powi bitlen a"
    using b1 by (simp add: power_int_nonneg_exp)
qed

lemma expo_bounds:
  assumes "x \<noteq> 0"
  shows "2 powi expo x \<le> \<bar>x\<bar>" "\<bar>x\<bar> < 2 powi (expo x + 1)"
proof -
  obtain a b where ab: "quotient_of \<bar>x\<bar> = (a, b)" by (cases "quotient_of \<bar>x\<bar>")
  have bpos: "0 < b" using ab by (rule quotient_of_denom_pos)
  have xab: "\<bar>x\<bar> = of_int a / of_int b" using ab by (rule quotient_of_div)
  have "0 < \<bar>x\<bar>" using assms by simp
  then have apos: "0 < a" using xab bpos by (simp add: zero_less_divide_iff)
  define k where "k = bitlen a - bitlen b"
  have e: "expo x = (if 2 powi k \<le> \<bar>x\<bar> then k else k - 1)"
    by (simp add: expo_def ab k_def Let_def)
  have bp: "(0::rat) < of_int b" using bpos by simp
  have "\<bar>x\<bar> < 2 powi bitlen a / of_int b"
    unfolding xab using bitlen_bounds_rat(2) [OF apos] bp by (simp add: divide_strict_right_mono)
  also have "\<dots> \<le> 2 powi bitlen a / 2 powi (bitlen b - 1)"
  proof (rule divide_left_mono)
    show "(2::rat) powi (bitlen b - 1) \<le> of_int b" by (rule bitlen_bounds_rat(1) [OF bpos])
    show "(0::rat) \<le> 2 powi bitlen a" by simp
    show "(0::rat) < of_int b * 2 powi (bitlen b - 1)" using bp by (simp add: zero_less_mult_iff)
  qed
  also have "\<dots> = 2 powi (k + 1)"
    by (simp add: k_def power_int_diff power_int_add)
  finally have up: "\<bar>x\<bar> < 2 powi (k + 1)" .
  have "(2::rat) powi (k - 1) = 2 powi (bitlen a - 1) / 2 powi bitlen b"
    by (simp add: k_def power_int_diff)
  also have "\<dots> \<le> of_int a / 2 powi bitlen b"
    using bitlen_bounds_rat(1) [OF apos] by (simp add: divide_right_mono)
  also have "\<dots> \<le> of_int a / of_int b"
    using bitlen_bounds_rat(2) [OF bpos] apos bp by (intro divide_left_mono) simp_all
  finally have lo: "2 powi (k - 1) \<le> \<bar>x\<bar>" unfolding xab .
  show "2 powi expo x \<le> \<bar>x\<bar>" using lo by (simp add: e)
  show "\<bar>x\<bar> < 2 powi (expo x + 1)" using up by (auto simp add: e not_le)
qed

lemma powi2_less_cancel:
  assumes "(2::rat) powi m < 2 powi n"
  shows "m < n"
proof (rule ccontr)
  assume "\<not> m < n"
  then have "n \<le> m" by simp
  then have "(2::rat) powi n \<le> 2 powi m" by (rule power_int_increasing) simp
  with assms show False by simp
qed

lemma expo_unique:
  assumes "2 powi e \<le> \<bar>x\<bar>" "\<bar>x\<bar> < 2 powi (e + 1)"
  shows "expo x = e"
proof -
  have "\<not> (2::rat) powi e \<le> 0" by (simp add: not_le)
  then have "x \<noteq> 0" using assms(1) by auto
  note b = expo_bounds [OF this]
  have "(2::rat) powi expo x < 2 powi (e + 1)" using b(1) assms(2) by simp
  then have 1: "expo x < e + 1" by (rule powi2_less_cancel)
  have "(2::rat) powi e < 2 powi (expo x + 1)" using b(2) assms(1) by simp
  then have 2: "e < expo x + 1" by (rule powi2_less_cancel)
  from 1 2 show ?thesis by simp
qed

subsection \<open>Rounding error\<close>

lemma rne_error: "\<bar>of_int (rne q) - q\<bar> \<le> 1/2"
proof -
  have "of_int \<lfloor>q\<rfloor> \<le> q" "q < of_int \<lfloor>q\<rfloor> + 1" by linarith+
  then show ?thesis by (auto simp add: rne_def Let_def)
qed

lemma rne_of_int [simp]: "rne (of_int n) = n"
  by (simp add: rne_def)

lemma fl_error_abs:
  assumes "x \<noteq> 0"
  shows "\<bar>fl x - x\<bar> \<le> 2 powi (expo x - 53)"
proof -
  define u :: rat where "u = 2 powi (expo x - 52)"
  have upos: "0 < u" by (simp add: u_def)
  have "fl x - x = (of_int (rne (x / u)) - x / u) * u"
    using upos assms by (simp add: fl_def u_def Let_def algebra_simps)
  then have "\<bar>fl x - x\<bar> = \<bar>of_int (rne (x / u)) - x / u\<bar> * u"
    using upos by (simp add: abs_mult)
  also have "\<dots> \<le> 1/2 * u"
    using rne_error [of "x / u"] upos by (intro mult_right_mono) simp_all
  also have "\<dots> = 2 powi (expo x - 53)"
    by (simp add: u_def power_int_diff)
  finally show ?thesis .
qed

lemma fl_error_rel: "\<bar>fl x - x\<bar> \<le> \<bar>x\<bar> / 2 ^ 53"
proof (cases "x = 0")
  case True
  then show ?thesis by (simp add: fl_def)
next
  case False
  have "\<bar>fl x - x\<bar> \<le> 2 powi (expo x - 53)" by (rule fl_error_abs [OF False])
  also have "\<dots> = 2 powi expo x / 2 ^ 53" by (simp add: power_int_diff)
  also have "\<dots> \<le> \<bar>x\<bar> / 2 ^ 53"
    using expo_bounds(1) [OF False] by (simp add: divide_right_mono)
  finally show ?thesis .
qed

subsection \<open>Doubles are fixed points of the rounding\<close>

lemma rne_bound:
  assumes "\<bar>q\<bar> < of_int N"
  shows "\<bar>rne q\<bar> \<le> N"
proof -
  have "\<bar>(of_int (rne q) :: rat)\<bar> \<le> \<bar>of_int (rne q) - q\<bar> + \<bar>q\<bar>" by simp
  also have "\<dots> < 1/2 + of_int N" using rne_error [of q] assms by simp
  finally have "(of_int \<bar>rne q\<bar> :: rat) < of_int N + 1/2" by simp
  then have "(of_int (2 * \<bar>rne q\<bar>) :: rat) < of_int (2 * N + 1)" by simp
  then have "2 * \<bar>rne q\<bar> < 2 * N + 1" by (simp only: of_int_less_iff)
  then show ?thesis by simp
qed

lemma fl_representable_strict:
  assumes "\<bar>m\<bar> < 2 ^ 53"
  shows "fl (of_int m * 2 powi e) = of_int m * 2 powi e"
proof (cases "m = 0")
  case True
  then show ?thesis by (simp add: fl_def)
next
  case False
  define y :: rat where "y = of_int m * 2 powi e"
  have y0: "y \<noteq> 0" using False by (simp add: y_def)
  have "\<bar>y\<bar> = of_int \<bar>m\<bar> * 2 powi e" by (simp add: y_def abs_mult)
  also have "\<dots> < of_int (2 ^ 53) * 2 powi e"
    using assms by (intro mult_strict_right_mono) (simp_all only: of_int_less_iff zero_less_power_int zero_less_numeral)
  also have "\<dots> = 2 powi (e + 53)" by (simp add: power_int_add)
  finally have "2 powi expo y < (2::rat) powi (e + 53)"
    using expo_bounds(1) [OF y0] by simp
  then have le: "expo y < e + 53" by (rule powi2_less_cancel)
  define d where "d = nat (e + 52 - expo y)"
  have d: "int d = e + 52 - expo y" using le by (simp add: d_def)
  define u :: rat where "u = 2 powi (expo y - 52)"
  have "2 powi e = (2::rat) powi (int d + (expo y - 52))" by (simp add: d)
  also have "\<dots> = 2 ^ d * u" unfolding u_def by (subst power_int_add) simp_all
  finally have pe: "(2::rat) powi e = 2 ^ d * u" .
  have upos: "0 < u" by (simp add: u_def)
  have "y / u = of_int (m * 2 ^ d)" using upos by (simp add: y_def pe)
  then have "rne (y / u) = m * 2 ^ d" by (simp only: rne_of_int)
  then have "fl y = of_int (m * 2 ^ d) * u"
    using y0 by (simp add: fl_def u_def Let_def)
  also have "\<dots> = y" by (simp add: y_def pe)
  finally show ?thesis by (simp add: y_def)
qed

lemma fl_representable:
  assumes "\<bar>m\<bar> \<le> 2 ^ 53"
  shows "fl (of_int m * 2 powi e) = of_int m * 2 powi e"
proof (cases "\<bar>m\<bar> < 2 ^ 53")
  case True
  then show ?thesis by (rule fl_representable_strict)
next
  case False
  with assms have "\<bar>m\<bar> = 2 ^ 53" by simp
  then have "m = 2 ^ 53 \<or> m = - (2 ^ 53)" by (auto simp: abs_if split: if_splits)
  then have "(of_int m :: rat) * 2 powi e = of_int (sgn m) * 2 powi (e + 53)"
    by (auto simp add: power_int_add)
  moreover have "fl (of_int (sgn m) * 2 powi (e + 53)) = of_int (sgn m) * 2 powi (e + 53)"
    by (rule fl_representable_strict) (simp add: sgn_if)
  ultimately show ?thesis by simp
qed

lemma fl_idem [simp]: "fl (fl x) = fl x"
proof (cases "x = 0")
  case True
  then show ?thesis by (simp add: fl_def)
next
  case False
  define u :: rat where "u = 2 powi (expo x - 52)"
  have upos: "0 < u" by (simp add: u_def)
  have "\<bar>x\<bar> < 2 powi (expo x + 1)" by (rule expo_bounds(2) [OF False])
  also have "\<dots> = 2 powi (53 + (expo x - 52))"
    by (rule arg_cong [where f = "\<lambda>k. 2 powi k"]) simp
  also have "\<dots> = 2 powi 53 * 2 powi (expo x - 52)" by (rule power_int_add) simp
  also have "\<dots> = 2 ^ 53 * u" by (simp add: u_def)
  finally have "\<bar>x\<bar> / u < 2 ^ 53" using upos by (simp add: pos_divide_less_eq)
  moreover have "\<bar>u\<bar> = u" using upos by simp
  ultimately have "\<bar>x / u\<bar> < of_int (2 ^ 53)" by (simp add: abs_divide)
  then have "\<bar>rne (x / u)\<bar> \<le> 2 ^ 53" by (rule rne_bound)
  then have "fl (of_int (rne (x / u)) * 2 powi (expo x - 52)) = of_int (rne (x / u)) * 2 powi (expo x - 52)"
    by (rule fl_representable)
  moreover have "fl x = of_int (rne (x / u)) * 2 powi (expo x - 52)"
    using False by (simp add: fl_def u_def Let_def)
  ultimately show ?thesis by simp
qed

lemma fl_of_int: "\<bar>n\<bar> \<le> 2 ^ 53 \<Longrightarrow> fl (of_int n) = of_int n"
  using fl_representable [of n 0] by simp

subsection \<open>Amounts of cents survive \<open>toFixed(2)\<close>\<close>

lemma rne_nonneg: "0 \<le> q \<Longrightarrow> 0 \<le> rne q"
  by (auto simp add: rne_def Let_def)

lemma fl_nonneg: "0 \<le> x \<Longrightarrow> 0 \<le> fl x"
  by (simp add: fl_def Let_def rne_nonneg)

lemma toFixed2_cents:
  assumes "0 \<le> n" "n < 2 ^ 52"
  shows "toFixed2 (fl (of_int n / 100)) = of_int n / 100"
proof -
  define x where "x = fl (of_int n / 100)"
  have n52: "(of_int n :: rat) < 2 ^ 52" using assms(2) by (metis of_int_less_iff of_int_numeral of_int_power)
  have n0: "(0::rat) \<le> of_int n" using assms(1) by simp
  have "\<bar>x - of_int n / 100\<bar> \<le> \<bar>of_int n / 100\<bar> / 2 ^ 53"
    unfolding x_def by (rule fl_error_rel)
  also have "\<dots> = of_int n / 100 / 2 ^ 53" using n0 by simp
  finally have err: "\<bar>x * 100 - of_int n\<bar> \<le> of_int n / 2 ^ 53" by (simp add: abs_if field_simps split: if_splits)
  have small: "(of_int n :: rat) / 2 ^ 53 < 1 / 2" using n52 by simp
  have lo: "of_int n - 1/2 < x * 100" and hi: "x * 100 < of_int n + 1/2"
    using err small by (auto simp add: abs_if split: if_splits)
  have fl: "\<lfloor>x * 100 + 1/2\<rfloor> = n" using lo hi by (simp add: floor_unique)
  have x0: "0 \<le> x" unfolding x_def using n0 by (intro fl_nonneg) simp
  have "x * 100 < 10 ^ 21 * 100" using hi n52 by simp
  then have x21: "\<bar>x\<bar> < 10 ^ 21" using x0 by simp
  show ?thesis using x0 x21 fl by (simp add: toFixed2_def x_def [symmetric] not_le)
qed

subsection \<open>Accuracy of the two interest formulas\<close>

lemma fl_approx:
  assumes "\<bar>x' - x\<bar> \<le> a * \<bar>x\<bar>" "0 \<le> a"
  shows "\<bar>fl x' - x\<bar> \<le> (a + (1 + a) / 2 ^ 53) * \<bar>x\<bar>"
proof -
  have x': "\<bar>x'\<bar> \<le> (1 + a) * \<bar>x\<bar>"
  proof -
    have "\<bar>x'\<bar> \<le> \<bar>x' - x\<bar> + \<bar>x\<bar>" by simp
    also have "\<dots> \<le> a * \<bar>x\<bar> + \<bar>x\<bar>" using assms(1) by simp
    finally show ?thesis by (simp add: algebra_simps)
  qed
  have "\<bar>fl x' - x\<bar> \<le> \<bar>fl x' - x'\<bar> + \<bar>x' - x\<bar>" by simp
  also have "\<dots> \<le> \<bar>x'\<bar> / 2 ^ 53 + a * \<bar>x\<bar>"
    using fl_error_rel [of x'] assms(1) by simp
  also have "\<dots> \<le> (1 + a) * \<bar>x\<bar> / 2 ^ 53 + a * \<bar>x\<bar>"
    using x' by (simp add: divide_right_mono)
  finally show ?thesis by (simp add: algebra_simps)
qed

lemma mult_approx:
  fixes x y x' y' a b :: rat
  assumes "\<bar>x' - x\<bar> \<le> a * \<bar>x\<bar>" "\<bar>y' - y\<bar> \<le> b * \<bar>y\<bar>" "0 \<le> a" "0 \<le> b"
  shows "\<bar>x' * y' - x * y\<bar> \<le> (a + b + a * b) * \<bar>x * y\<bar>"
proof -
  have x': "\<bar>x'\<bar> \<le> (1 + a) * \<bar>x\<bar>"
  proof -
    have "\<bar>x'\<bar> \<le> \<bar>x' - x\<bar> + \<bar>x\<bar>" by simp
    also have "\<dots> \<le> a * \<bar>x\<bar> + \<bar>x\<bar>" using assms(1) by simp
    finally show ?thesis by (simp add: algebra_simps)
  qed
  have "x' * y' - x * y = x' * (y' - y) + (x' - x) * y" by (simp add: algebra_simps)
  then have "\<bar>x' * y' - x * y\<bar> \<le> \<bar>x'\<bar> * \<bar>y' - y\<bar> + \<bar>x' - x\<bar> * \<bar>y\<bar>"
    by (metis abs_mult abs_triangle_ineq)
  also have "\<dots> \<le> ((1 + a) * \<bar>x\<bar>) * (b * \<bar>y\<bar>) + (a * \<bar>x\<bar>) * \<bar>y\<bar>"
    using x' assms by (intro add_mono mult_mono) simp_all
  also have "\<dots> = (a + b + a * b) * \<bar>x * y\<bar>" by (simp add: algebra_simps abs_mult)
  finally show ?thesis .
qed

lemma fl_rel0: "\<bar>fl x - x\<bar> \<le> (1 / 2 ^ 53) * \<bar>x\<bar>"
  using fl_error_rel [of x] by simp

lemma three_roundings:
  assumes "\<bar>u - x\<bar> \<le> (1 / 2 ^ 53) * \<bar>x\<bar>" "\<bar>v - y\<bar> \<le> (1 / 2 ^ 53) * \<bar>y\<bar>"
  shows "\<bar>fl (u * v) - x * y\<bar> \<le> \<bar>x * y\<bar> / 2 ^ 51"
proof -
  define e :: rat where "e = 1 / 2 ^ 53"
  have e0: "0 \<le> e" by (simp add: e_def)
  have "\<bar>u * v - x * y\<bar> \<le> (e + e + e * e) * \<bar>x * y\<bar>"
    using assms e0 unfolding e_def [symmetric] by (intro mult_approx) simp_all
  moreover have "0 \<le> e + e + e * e" using e0 by simp
  ultimately have "\<bar>fl (u * v) - x * y\<bar> \<le> ((e + e + e * e) + (1 + (e + e + e * e)) / 2 ^ 53) * \<bar>x * y\<bar>"
    by (rule fl_approx)
  also have "\<dots> \<le> (1 / 2 ^ 51) * \<bar>x * y\<bar>"
    by (intro mult_right_mono) (simp_all add: e_def)
  finally show ?thesis by simp
qed

lemma exact_rel: "\<bar>x - x\<bar> \<le> (1 / 2 ^ 53) * \<bar>x :: rat\<bar>"
  by simp

lemma flat_monthly_accuracy:
  "\<bar>fmul (fmul p r) (fdiv t 30) - p * r * (t / 30)\<bar> \<le> \<bar>p * r * (t / 30)\<bar> / 2 ^ 51"
  unfolding fmul_def fdiv_def by (rule three_roundings) (rule fl_rel0)+

lemma reducing_balance_accuracy:
  "\<bar>fmul (fmul p (fdiv r 365)) t - p * (r / 365) * t\<bar> \<le> \<bar>p * (r / 365) * t\<bar> / 2 ^ 51"
proof -
  define e :: rat where "e = 1 / 2 ^ 53"
  define c :: rat where "c = e + (1 + e) / 2 ^ 53"
  have e0: "0 \<le> e" and c0: "0 \<le> c" by (simp_all add: e_def c_def)
  have d: "\<bar>fl (r / 365) - r / 365\<bar> \<le> e * \<bar>r / 365\<bar>"
    unfolding e_def by (rule fl_rel0)
  have px: "\<bar>p - p\<bar> \<le> 0 * \<bar>p\<bar>" and tx: "\<bar>t - t\<bar> \<le> 0 * \<bar>t\<bar>" by simp_all
  have "\<bar>p * fl (r / 365) - p * (r / 365)\<bar> \<le> (0 + e + 0 * e) * \<bar>p * (r / 365)\<bar>"
    by (rule mult_approx [OF px d]) (simp_all add: e0)
  then have "\<bar>p * fl (r / 365) - p * (r / 365)\<bar> \<le> e * \<bar>p * (r / 365)\<bar>" by simp
  then have m: "\<bar>fl (p * fl (r / 365)) - p * (r / 365)\<bar> \<le> c * \<bar>p * (r / 365)\<bar>"
    unfolding c_def using e0 by (rule fl_approx)
  have "\<bar>fl (p * fl (r / 365)) * t - p * (r / 365) * t\<bar> \<le> (c + 0 + c * 0) * \<bar>p * (r / 365) * t\<bar>"
    by (rule mult_approx [OF m tx]) (simp_all add: c0)
  then have "\<bar>fl (p * fl (r / 365)) * t - p * (r / 365) * t\<bar> \<le> c * \<bar>p * (r / 365) * t\<bar>" by simp
  then have "\<bar>fl (fl (p * fl (r / 365)) * t) - p * (r / 365) * t\<bar>
      \<le> (c + (1 + c) / 2 ^ 53) * \<bar>p * (r / 365) * t\<bar>"
    using c0 by (rule fl_approx)
  also have "\<dots> \<le> (1 / 2 ^ 51) * \<bar>p * (r / 365) * t\<bar>"
    by (intro mult_right_mono) (simp_all add: e_def c_def)
  finally show ?thesis by (simp add: fmul_def fdiv_def)
qed

section \<open>The loan calculation\<close>

lemma calc_success:
  assumes "getProductById db productId = Some product" "is_active product"
    "principalAmount \<le> max_amount product"
  shows "calculateLoanDetails db productId principalAmount termDays =
     Inr \<lparr> product_id = productId,
            product_name = name product,
            principal_amount = principalAmount,
            interest_rate' = interest_rate product,
            interest_type' = interest_type product,
            term_days = loanTermDays termDays product,
            interest_amount = parseFloat (toFixed2
              (interestAmount product principalAmount (loanTermDays termDays product))),
            total_due_amount = parseFloat (toFixed2 (fadd principalAmount
              (interestAmount product principalAmount (loanTermDays termDays product)))),
            grace_days' = grace_days product,
            penalty_type' = penalty_type product,
            penalty_value' = penalty_value product \<rparr>"
  using assms by (simp add: calculateLoanDetails_def Let_def not_less)

lemma calc_isl:
  "isl (calculateLoanDetails db productId principalAmount termDays) =
     (case getProductById db productId of
        None \<Rightarrow> True
      | Some product \<Rightarrow> \<not> is_active product \<or> max_amount product < principalAmount)"
  by (simp add: calculateLoanDetails_def Let_def split: option.splits)

lemma cents_of_decimalPlaces:
  assumes "decimalPlaces_le_2 v" "0 \<le> v" "v \<le> 10 ^ 12"
  shows "parseFloat (toFixed2 v) = v"
proof -
  define n where "n = rne (v * 100)"
  have vn: "fl (of_int n / 100) = v"
    using assms(1) by (simp add: decimalPlaces_le_2_def parseFloat_def n_def)
  have n0: "0 \<le> n" unfolding n_def using assms(2) by (intro rne_nonneg) simp
  have "\<bar>v * 100\<bar> < of_int (10 ^ 15)" using assms(2,3) by simp
  then have "\<bar>n\<bar> \<le> 10 ^ 15" unfolding n_def by (rule rne_bound)
  moreover have "(10::int) ^ 15 < 2 ^ 52" by simp
  ultimately have n52: "n < 2 ^ 52" by linarith
  have "toFixed2 (fl (of_int n / 100)) = of_int n / 100"
    using n0 n52 by (rule toFixed2_cents)
  then have "toFixed2 v = of_int n / 100" by (simp only: vn)
  then have "parseFloat (toFixed2 v) = fl (of_int n / 100)" by (simp only: parseFloat_def)
  then show ?thesis by (simp only: vn)
qed

lemma parseInt_of_term:
  assumes "isInt t" "1 \<le> t" "t \<le> 3650"
  shows "parseInt t = t"
proof -
  have "parseFloat (1 / 10 ^ 6) \<le> 1" by code_simp
  then have "parseFloat (1 / 10 ^ 6) \<le> \<bar>t\<bar>" using assms(2) by simp
  moreover have "\<bar>t\<bar> < 10 ^ 21" using assms(2,3) by simp
  ultimately show ?thesis using assms by (simp add: parseInt_def isInt_def)
qed

text \<open>
  C1, as stated: for an active \<open>flat_monthly\<close> product and a principal within the
  maximum the returned \<open>interest_amount\<close> is principal times rate times term over 30.
  The returned amount has been through \<open>toFixed(2)\<close>: for the seeded Employee Standard
  product (rate 0.25, 60 days) and a principal of 1.25 the product is 0.625 and the
  function returns 0.63.
\<close>

theorem flat_monthly_interest_not_exact:
  "map_sum id interest_amount (calculateLoanDetails seed_products ''employee'' (5 / 4) None)
     = Inr (parseFloat (63 / 100))
   \<and> parseFloat (63 / 100) \<noteq> 5 / 4 * interest_rate employee_standard * (60 / 30)"
  by code_simp

text \<open>
  C1, amended: for an active \<open>flat_monthly\<close> product and a principal within the maximum
  the call succeeds, the term is the caller's or else the product's default, and the
  returned \<open>interest_amount\<close> is principal times rate times term over 30, evaluated in
  double arithmetic in the order of the source (within a relative error of \<open>2^-51\<close> of
  the exact product) and then rounded by \<open>toFixed(2)\<close>. For rate 0.25, default term 60
  and principal 1000 with no term the result is interest 500.00 and total due 1500.00.
\<close>

theorem flat_monthly_interest_rounded:
  "(getProductById db productId = Some product \<and> is_active product
      \<and> interest_type product = ''flat_monthly'' \<and> principalAmount \<le> max_amount product
    \<longrightarrow> (case calculateLoanDetails db productId principalAmount termDays of
           Inl e \<Rightarrow> False
         | Inr r \<Rightarrow>
             term_days r = (case termDays of None \<Rightarrow> default_term_days product
                            | Some t \<Rightarrow> if t = 0 then default_term_days product else t)
             \<and> interest_amount r = parseFloat (toFixed2
                  (fmul (fmul principalAmount (interest_rate product)) (fdiv (term_days r) 30)))
             \<and> \<bar>fmul (fmul principalAmount (interest_rate product)) (fdiv (term_days r) 30)
                  - principalAmount * interest_rate product * (term_days r / 30)\<bar>
                 \<le> \<bar>principalAmount * interest_rate product * (term_days r / 30)\<bar> / 2 ^ 51))
   \<and> map_sum id (\<lambda>r. (interest_amount r, total_due_amount r))
         (calculateLoanDetails seed_products ''employee'' 1000 None) = Inr (500, 1500)"
proof (intro conjI impI)
  assume a: "getProductById db productId = Some product \<and> is_active product
      \<and> interest_type product = ''flat_monthly'' \<and> principalAmount \<le> max_amount product"
  then show "case calculateLoanDetails db productId principalAmount termDays of
           Inl e \<Rightarrow> False
         | Inr r \<Rightarrow>
             term_days r = (case termDays of None \<Rightarrow> default_term_days product
                            | Some t \<Rightarrow> if t = 0 then default_term_days product else t)
             \<and> interest_amount r = parseFloat (toFixed2
                  (fmul (fmul principalAmount (interest_rate product)) (fdiv (term_days r) 30)))
             \<and> \<bar>fmul (fmul principalAmount (interest_rate product)) (fdiv (term_days r) 30)
                  - principalAmount * interest_rate product * (term_days r / 30)\<bar>
                 \<le> \<bar>principalAmount * interest_rate product * (term_days r / 30)\<bar> / 2 ^ 51"
    using flat_monthly_accuracy [of principalAmount "interest_rate product" "loanTermDays termDays product"]
    by (simp add: calc_success interestAmount_def Let_def) (simp add: loanTermDays_def)
next
  show "map_sum id (\<lambda>r. (interest_amount r, total_due_amount r))
         (calculateLoanDetails seed_products ''employee'' 1000 None) = Inr (500, 1500)"
    by code_simp
qed

theorem flat_monthly_interest_rounded_witness:
  "(getProductById seed_products ''student'' = Some student_quick_loan
      \<and> is_active student_quick_loan
      \<and> interest_type student_quick_loan = ''flat_monthly''
      \<and> 100 \<le> max_amount student_quick_loan)
   \<and> (case calculateLoanDetails seed_products ''student'' 100 (Some 15) of
         Inl e \<Rightarrow> False
       | Inr r \<Rightarrow> term_days r = 15 \<and> interest_amount r = 15)"
proof -
  have h: "getProductById seed_products ''student'' = Some student_quick_loan
      \<and> is_active student_quick_loan
      \<and> interest_type student_quick_loan = ''flat_monthly''
      \<and> 100 \<le> max_amount student_quick_loan"
    by code_simp
  have v: "parseFloat (toFixed2 (fmul (fmul 100 (interest_rate student_quick_loan)) (fdiv 15 30)))
      = 15"
    by code_simp
  from flat_monthly_interest_rounded [of seed_products "''student''" student_quick_loan 100 "Some 15"] h
  have "case calculateLoanDetails seed_products ''student'' 100 (Some 15) of
          Inl e \<Rightarrow> False
        | Inr r \<Rightarrow>
            term_days r = (case Some 15 of None \<Rightarrow> default_term_days student_quick_loan
                           | Some t \<Rightarrow> if t = 0 then default_term_days student_quick_loan else t)
            \<and> interest_amount r = parseFloat (toFixed2
                 (fmul (fmul 100 (interest_rate student_quick_loan)) (fdiv (term_days r) 30)))
            \<and> \<bar>fmul (fmul 100 (interest_rate student_quick_loan)) (fdiv (term_days r) 30)
                 - 100 * interest_rate student_quick_loan * (term_days r / 30)\<bar>
                \<le> \<bar>100 * interest_rate student_quick_loan * (term_days r / 30)\<bar> / 2 ^ 51"
    by blast
  then have "case calculateLoanDetails seed_products ''student'' 100 (Some 15) of
         Inl e \<Rightarrow> False
       | Inr r \<Rightarrow> term_days r = 15 \<and> interest_amount r = 15"
    using v by (auto split: sum.splits)
  with h show ?thesis by blast
qed

text \<open>
  C2 says that the returned amounts are the exact results rounded half up to two
  decimals. The code rounds the double it computed: for the seeded Student Quick Loan
  (rate 0.3, 30 days) and principal 1.15 the exact interest is 0.345 and the exact total
  1.495, which round half up to 0.35 and 1.50; the doubles computed are just below and
  \<open>toFixed(2)\<close> gives 0.34 and 1.49.
\<close>

theorem half_cent_interest_rounds_down:
  "map_sum id (\<lambda>r. (interest_amount r, total_due_amount r))
      (calculateLoanDetails seed_products ''student'' (parseFloat (115 / 100)) None)
     = Inr (parseFloat (34 / 100), parseFloat (149 / 100))
   \<and> round_half_up_2 (115 / 100 * (3 / 10) * (30 / 30)) = 35 / 100
   \<and> round_half_up_2 (115 / 100 + 115 / 100 * (3 / 10) * (30 / 30)) = 150 / 100
   \<and> parseFloat (34 / 100) \<noteq> parseFloat (35 / 100)
   \<and> parseFloat (149 / 100) \<noteq> parseFloat (150 / 100)"
  by code_simp

text \<open>
  C3, as stated: the calculation fails whenever the principal is not strictly positive,
  exceeds the maximum or the product is not active, and succeeds otherwise. The service
  has no check of the sign: a principal of -100 is calculated. The validator in front of
  it rejects every principal below 1.00, so also 0.50, which meets the three conditions.
\<close>

theorem negative_principal_is_calculated:
  "map_sum id (\<lambda>r. (principal_amount r, interest_amount r, total_due_amount r))
      (calculateLoanDetails seed_products ''student'' (- 100) None) = Inr (- 100, - 30, - 130)
   \<and> \<not> validateLoanCalculation \<lparr> body_principal_amount = 1 / 2, body_term_days = None \<rparr>"
  by code_simp

text \<open>
  C3, amended: the service fails exactly when the product does not exist, is not active
  or the principal exceeds its \<open>max_amount\<close>; the sign of the principal is checked in
  front of it, by \<open>validateLoanCalculation\<close>, which rejects every principal below 1.00;
  for a body the validator accepts, an existing active product and a principal within
  the maximum, the service succeeds on the principal and the term of the body, and the
  controller answers with that result.
\<close>

theorem calculation_failure_conditions:
  "(isl (calculateLoanDetails db productId principalAmount termDays) =
      (case getProductById db productId of
         None \<Rightarrow> True
       | Some product \<Rightarrow> \<not> is_active product \<or> max_amount product < principalAmount))
   \<and> (body_principal_amount body < 1 \<longrightarrow> \<not> validateLoanCalculation body)
   \<and> (validateLoanCalculation body \<and> getProductById db productId = Some product
        \<and> is_active product \<and> body_principal_amount body \<le> max_amount product
      \<longrightarrow> (case calculateLoanDetails db productId (body_principal_amount body)
                   (body_term_days body) of
             Inl e \<Rightarrow> False
           | Inr r \<Rightarrow> calculateLoanDetails_controller db productId body = Success r))"
proof (intro conjI impI)
  show "isl (calculateLoanDetails db productId principalAmount termDays) =
      (case getProductById db productId of
         None \<Rightarrow> True
       | Some product \<Rightarrow> \<not> is_active product \<or> max_amount product < principalAmount)"
    by (rule calc_isl)
next
  assume "body_principal_amount body < 1"
  then show "\<not> validateLoanCalculation body"
    by (simp add: validateLoanCalculation_def)
next
  assume a: "validateLoanCalculation body \<and> getProductById db productId = Some product
        \<and> is_active product \<and> body_principal_amount body \<le> max_amount product"
  have t: "loanTermDays (case body_term_days body of
                None \<Rightarrow> None
              | Some t \<Rightarrow> if t = 0 then None else Some (parseInt t)) product
         = loanTermDays (body_term_days body) product"
  proof (cases "body_term_days body")
    case None
    then show ?thesis by simp
  next
    case (Some t)
    show ?thesis
    proof (cases "t = 0")
      case True
      with Some show ?thesis by (simp add: loanTermDays_def)
    next
      case False
      with a Some have "isInt t" "1 \<le> t" "t \<le> 3650"
        by (simp_all add: validateLoanCalculation_def)
      then have "parseInt t = t" by (rule parseInt_of_term)
      with Some False show ?thesis by simp
    qed
  qed
  show "case calculateLoanDetails db productId (body_principal_amount body)
                   (body_term_days body) of
             Inl e \<Rightarrow> False
           | Inr r \<Rightarrow> calculateLoanDetails_controller db productId body = Success r"
    using a t by (simp add: calc_success calculateLoanDetails_controller_def)
qed

theorem calculation_failure_conditions_witness:
  "body_principal_amount \<lparr> body_principal_amount = 0, body_term_days = None \<rparr> < 1
   \<and> \<not> validateLoanCalculation \<lparr> body_principal_amount = 0, body_term_days = None \<rparr>
   \<and> validateLoanCalculation \<lparr> body_principal_amount = 100, body_term_days = Some 15 \<rparr>
   \<and> getProductById seed_products ''student'' = Some student_quick_loan
   \<and> is_active student_quick_loan
   \<and> body_principal_amount \<lparr> body_principal_amount = 100, body_term_days = Some 15 \<rparr>
        \<le> max_amount student_quick_loan
   \<and> (case calculateLoanDetails seed_products ''student''
              (body_principal_amount \<lparr> body_principal_amount = 100, body_term_days = Some 15 \<rparr>)
              (body_term_days \<lparr> body_principal_amount = 100, body_term_days = Some 15 \<rparr>) of
         Inl e \<Rightarrow> False
       | Inr r \<Rightarrow>
           calculateLoanDetails_controller seed_products ''student''
             \<lparr> body_principal_amount = 100, body_term_days = Some 15 \<rparr> = Success r)
   \<and> is_Success (calculateLoanDetails_controller seed_products ''student''
        \<lparr> body_principal_amount = 100, body_term_days = Some 15 \<rparr>)"
  (is "?H1 \<and> ?C1 \<and> ?H2a \<and> ?H2b \<and> ?H2c \<and> ?H2d \<and> ?C2 \<and> ?V")
proof -
  have h1: ?H1 by simp
  have h2: "?H2a \<and> ?H2b \<and> ?H2c \<and> ?H2d" by code_simp
  note low = calculation_failure_conditions [of seed_products "''student''" _ _
      "\<lparr> body_principal_amount = 0, body_term_days = None \<rparr>"]
  note ok = calculation_failure_conditions [of seed_products "''student''" _ _
      "\<lparr> body_principal_amount = 100, body_term_days = Some 15 \<rparr>" student_quick_loan]
  from low h1 have c1: ?C1 by blast
  from ok h2 have c2: ?C2 by blast
  then have v: ?V by (auto split: sum.splits)
  from h1 c1 h2 c2 v show ?thesis by blast
qed

text \<open>
  C4, as stated: for a \<open>reducing_balance\<close> product the interest amount is principal
  times (rate over 365) times the term in days. For Employee Standard's terms as a
  \<open>reducing_balance\<close> product (rate 0.25, 60 days) and principal 1000 the returned
  \<open>interest_amount\<close> is 41.10, which is neither that product, 41.0958..., nor the
  double the code computes for it.
\<close>

theorem reducing_balance_interest_not_exact:
  "map_sum id interest_amount
      (calculateLoanDetails [''rb'' \<mapsto> reducing_example] ''rb'' 1000 None)
     = Inr (parseFloat (4110 / 100))
   \<and> parseFloat (4110 / 100) \<noteq> 1000 * (interest_rate reducing_example / 365) * 60
   \<and> parseFloat (4110 / 100)
       \<noteq> fmul (fmul 1000 (fdiv (interest_rate reducing_example) 365)) 60"
  by code_simp

text \<open>
  C4, amended: for an active \<open>reducing_balance\<close> product and a principal within the
  maximum the call succeeds, the term is the caller's or else the product's default, and
  the returned \<open>interest_amount\<close> is principal times (rate over 365) times the term in
  days, the flat daily-rate formula without amortization, evaluated in double arithmetic
  in the order of the source (within a relative error of \<open>2^-51\<close> of the exact
  product) and then rounded by \<open>toFixed(2)\<close>.
\<close>

theorem reducing_balance_interest_rounded:
  "getProductById db productId = Some product \<and> is_active product
     \<and> interest_type product = ''reducing_balance'' \<and> principalAmount \<le> max_amount product
   \<longrightarrow> (case calculateLoanDetails db productId principalAmount termDays of
          Inl e \<Rightarrow> False
        | Inr r \<Rightarrow>
            term_days r = (case termDays of None \<Rightarrow> default_term_days product
                           | Some t \<Rightarrow> if t = 0 then default_term_days product else t)
            \<and> interest_amount r = parseFloat (toFixed2
                 (fmul (fmul principalAmount (fdiv (interest_rate product) 365)) (term_days r)))
            \<and> \<bar>fmul (fmul principalAmount (fdiv (interest_rate product) 365)) (term_days r)
                 - principalAmount * (interest_rate product / 365) * term_days r\<bar>
                \<le> \<bar>principalAmount * (interest_rate product / 365) * term_days r\<bar> / 2 ^ 51)"
proof
  assume a: "getProductById db productId = Some product \<and> is_active product
     \<and> interest_type product = ''reducing_balance'' \<and> principalAmount \<le> max_amount product"
  have i: "interestAmount product principalAmount d
      = fmul (fmul principalAmount (fdiv (interest_rate product) 365)) d" for d
    using a by (simp add: interestAmount_def)
  show "case calculateLoanDetails db productId principalAmount termDays of
          Inl e \<Rightarrow> False
        | Inr r \<Rightarrow>
            term_days r = (case termDays of None \<Rightarrow> default_term_days product
                           | Some t \<Rightarrow> if t = 0 then default_term_days product else t)
            \<and> interest_amount r = parseFloat (toFixed2
                 (fmul (fmul principalAmount (fdiv (interest_rate product) 365)) (term_days r)))
            \<and> \<bar>fmul (fmul principalAmount (fdiv (interest_rate product) 365)) (term_days r)
                 - principalAmount * (interest_rate product / 365) * term_days r\<bar>
                \<le> \<bar>principalAmount * (interest_rate product / 365) * term_days r\<bar> / 2 ^ 51"
    using a reducing_balance_accuracy [of principalAmount "interest_rate product"
        "loanTermDays termDays product"]
    by (simp add: calc_success i) (simp add: loanTermDays_def)
qed

theorem reducing_balance_interest_rounded_witness:
  "(getProductById [''rb'' \<mapsto> reducing_example] ''rb'' = Some reducing_example
      \<and> is_active reducing_example
      \<and> interest_type reducing_example = ''reducing_balance''
      \<and> 1000 \<le> max_amount reducing_example)
   \<and> (case calculateLoanDetails [''rb'' \<mapsto> reducing_example] ''rb'' 1000 (Some 45) of
         Inl e \<Rightarrow> False
       | Inr r \<Rightarrow> term_days r = 45 \<and> interest_amount r = parseFloat (3082 / 100))"
proof -
  have h: "getProductById [''rb'' \<mapsto> reducing_example] ''rb'' = Some reducing_example
      \<and> is_active reducing_example
      \<and> interest_type reducing_example = ''reducing_balance''
      \<and> 1000 \<le> max_amount reducing_example"
    by code_simp
  have v: "parseFloat (toFixed2 (fmul (fmul 1000 (fdiv (interest_rate reducing_example) 365)) 45))
      = parseFloat (3082 / 100)"
    by code_simp
  from reducing_balance_interest_rounded [of "[''rb'' \<mapsto> reducing_example]" "''rb''" reducing_example 1000 "Some 45"] h
  have "case calculateLoanDetails [''rb'' \<mapsto> reducing_example] ''rb'' 1000 (Some 45) of
          Inl e \<Rightarrow> False
        | Inr r \<Rightarrow>
            term_days r = (case Some 45 of None \<Rightarrow> default_term_days reducing_example
                           | Some t \<Rightarrow> if t = 0 then default_term_days reducing_example else t)
            \<and> interest_amount r = parseFloat (toFixed2
                 (fmul (fmul 1000 (fdiv (interest_rate reducing_example) 365)) (term_days r)))
            \<and> \<bar>fmul (fmul 1000 (fdiv (interest_rate reducing_example) 365)) (term_days r)
                 - 1000 * (interest_rate reducing_example / 365) * term_days r\<bar>
                \<le> \<bar>1000 * (interest_rate reducing_example / 365) * term_days r\<bar> / 2 ^ 51"
    by blast
  then have "case calculateLoanDetails [''rb'' \<mapsto> reducing_example] ''rb'' 1000 (Some 45) of
         Inl e \<Rightarrow> False
       | Inr r \<Rightarrow> term_days r = 45 \<and> interest_amount r = parseFloat (3082 / 100)"
    using v by (auto split: sum.splits)
  with h show ?thesis by blast
qed

text \<open>
  C5 says that the returned \<open>total_due_amount\<close> is the returned principal plus the
  returned interest. The code rounds the total and the interest separately, each from an
  unrounded double: for the seeded Student Quick Loan and principal 1.45 it returns
  interest 0.43 and total due 1.89, and 1.45 + 0.43 is 1.88.
\<close>

theorem total_due_one_cent_off:
  "map_sum id (\<lambda>r. (principal_amount r, interest_amount r, total_due_amount r))
      (calculateLoanDetails seed_products ''student'' (parseFloat (145 / 100)) None)
     = Inr (parseFloat (145 / 100), parseFloat (43 / 100), parseFloat (189 / 100))
   \<and> parseFloat (189 / 100) \<noteq> parseFloat (145 / 100) + parseFloat (43 / 100)
   \<and> parseFloat (189 / 100) \<noteq> fadd (parseFloat (145 / 100)) (parseFloat (43 / 100))
   \<and> (189 :: int) \<noteq> 145 + 43"
  by code_simp

text \<open>
  C9: a term of \<open>null\<close>, \<open>undefined\<close> or \<open>0\<close> is replaced by the product's
  \<open>default_term_days\<close>: the call is the call with the default term. A term of 0 days is
  neither rejected nor gives zero interest: for Employee Standard and principal 1000 it
  gives 60 days, interest 500.00 and total due 1500.00.
\<close>

theorem falsy_term_uses_default:
  "(getProductById db productId = Some product \<and> (termDays = None \<or> termDays = Some 0)
    \<longrightarrow> loanTermDays termDays product = default_term_days product
       \<and> calculateLoanDetails db productId principalAmount termDays
           = calculateLoanDetails db productId principalAmount (Some (default_term_days product)))
   \<and> map_sum id (\<lambda>r. (term_days r, interest_amount r, total_due_amount r))
        (calculateLoanDetails seed_products ''employee'' 1000 (Some 0)) = Inr (60, 500, 1500)"
proof (intro conjI impI)
  assume a: "getProductById db productId = Some product \<and> (termDays = None \<or> termDays = Some 0)"
  then show "loanTermDays termDays product = default_term_days product"
    by (auto simp add: loanTermDays_def)
  from a show "calculateLoanDetails db productId principalAmount termDays
           = calculateLoanDetails db productId principalAmount (Some (default_term_days product))"
    by (auto simp add: calculateLoanDetails_def loanTermDays_def)
next
  show "map_sum id (\<lambda>r. (term_days r, interest_amount r, total_due_amount r))
        (calculateLoanDetails seed_products ''employee'' 1000 (Some 0)) = Inr (60, 500, 1500)"
    by code_simp
qed

theorem falsy_term_uses_default_witness:
  "(getProductById seed_products ''student'' = Some student_quick_loan
      \<and> (Some (0 :: number) = None \<or> Some (0 :: number) = Some 0))
   \<and> loanTermDays (Some 0) student_quick_loan = default_term_days student_quick_loan
   \<and> calculateLoanDetails seed_products ''student'' 100 (Some 0)
       = calculateLoanDetails seed_products ''student'' 100
           (Some (default_term_days student_quick_loan))"
proof -
  have h: "getProductById seed_products ''student'' = Some student_quick_loan
      \<and> (Some (0 :: number) = None \<or> Some (0 :: number) = Some 0)"
    by code_simp
  with falsy_term_uses_default [of seed_products "''student''" student_quick_loan "Some 0" 100]
  show ?thesis by blast
qed

text \<open>
  C10, as stated: for every product whose \<open>interest_type\<close> is neither literal the call
  succeeds with \<open>interest_amount\<close> 0 and \<open>total_due_amount\<close> the principal. The
  checks in front of the branch still apply, and the total goes through \<open>toFixed(2)\<close>:
  for a deactivated product with a NULL \<open>interest_type\<close> the call fails, and for the
  active one and principal 1.005 the total is 1.
\<close>

theorem other_interest_type_not_unconditional:
  "calculateLoanDetails [''null'' \<mapsto> inactive_example] ''null'' 1000 None
     = Inl ProductNotActive
   \<and> map_sum id (\<lambda>r. (interest_amount r, total_due_amount r))
        (calculateLoanDetails [''null'' \<mapsto> null_type_example] ''null''
           (parseFloat (1005 / 1000)) None) = Inr (0, 1)
   \<and> parseFloat (1005 / 1000) \<noteq> 1"
  by code_simp

text \<open>
  C10, amended: for an active product whose \<open>interest_type\<close> is neither
  \<open>flat_monthly\<close> nor \<open>reducing_balance\<close> and a principal within the maximum the call
  succeeds with \<open>interest_amount\<close> 0, and \<open>total_due_amount\<close> is the principal after
  \<open>toFixed(2)\<close>, which is the principal itself for every non-negative amount of at most
  two decimals (up to \<open>10^12\<close>), the amounts the validator lets through.
\<close>

theorem other_interest_type_zero_interest:
  "getProductById db productId = Some product \<and> is_active product
     \<and> interest_type product \<noteq> ''flat_monthly'' \<and> interest_type product \<noteq> ''reducing_balance''
     \<and> principalAmount \<le> max_amount product
   \<longrightarrow> (case calculateLoanDetails db productId principalAmount termDays of
          Inl e \<Rightarrow> False
        | Inr r \<Rightarrow>
            interest_amount r = 0
            \<and> total_due_amount r = parseFloat (toFixed2 (fadd principalAmount 0))
            \<and> (0 \<le> principalAmount \<and> principalAmount \<le> 10 ^ 12
                  \<and> decimalPlaces_le_2 principalAmount
                \<longrightarrow> total_due_amount r = principalAmount))"
proof
  assume a: "getProductById db productId = Some product \<and> is_active product
     \<and> interest_type product \<noteq> ''flat_monthly'' \<and> interest_type product \<noteq> ''reducing_balance''
     \<and> principalAmount \<le> max_amount product"
  have i: "interestAmount product principalAmount d = 0" for d
    using a by (simp add: interestAmount_def)
  have z: "parseFloat (toFixed2 0) = 0" by code_simp
  have c: "parseFloat (toFixed2 (fadd principalAmount 0)) = principalAmount"
    if "0 \<le> principalAmount \<and> principalAmount \<le> 10 ^ 12 \<and> decimalPlaces_le_2 principalAmount"
  proof -
    have "fl principalAmount = principalAmount"
      using that by (metis decimalPlaces_le_2_def parseFloat_def fl_idem)
    then show ?thesis using that by (simp add: fadd_def cents_of_decimalPlaces)
  qed
  show "case calculateLoanDetails db productId principalAmount termDays of
          Inl e \<Rightarrow> False
        | Inr r \<Rightarrow>
            interest_amount r = 0
            \<and> total_due_amount r = parseFloat (toFixed2 (fadd principalAmount 0))
            \<and> (0 \<le> principalAmount \<and> principalAmount \<le> 10 ^ 12
                  \<and> decimalPlaces_le_2 principalAmount
                \<longrightarrow> total_due_amount r = principalAmount)"
    using a c by (simp add: calc_success i z)
qed

theorem other_interest_type_zero_interest_witness:
  "(getProductById [''null'' \<mapsto> null_type_example] ''null'' = Some null_type_example
      \<and> is_active null_type_example
      \<and> interest_type null_type_example \<noteq> ''flat_monthly''
      \<and> interest_type null_type_example \<noteq> ''reducing_balance''
      \<and> parseFloat (115 / 100) \<le> max_amount null_type_example)
   \<and> (0 \<le> parseFloat (115 / 100) \<and> parseFloat (115 / 100) \<le> 10 ^ 12
        \<and> decimalPlaces_le_2 (parseFloat (115 / 100)))
   \<and> (case calculateLoanDetails [''null'' \<mapsto> null_type_example] ''null''
              (parseFloat (115 / 100)) None of
         Inl e \<Rightarrow> False
       | Inr r \<Rightarrow> interest_amount r = 0 \<and> total_due_amount r = parseFloat (115 / 100))"
proof -
  have h: "getProductById [''null'' \<mapsto> null_type_example] ''null'' = Some null_type_example
      \<and> is_active null_type_example
      \<and> interest_type null_type_example \<noteq> ''flat_monthly''
      \<and> interest_type null_type_example \<noteq> ''reducing_balance''
      \<and> parseFloat (115 / 100) \<le> max_amount null_type_example"
    by code_simp
  have g: "0 \<le> parseFloat (115 / 100) \<and> parseFloat (115 / 100) \<le> 10 ^ 12
        \<and> decimalPlaces_le_2 (parseFloat (115 / 100))"
    by code_simp
  from other_interest_type_zero_interest [of "[''null'' \<mapsto> null_type_example]" "''null''" null_type_example
      "parseFloat (115 / 100)" None] h
  have "case calculateLoanDetails [''null'' \<mapsto> null_type_example] ''null''
              (parseFloat (115 / 100)) None of
          Inl e \<Rightarrow> False
        | Inr r \<Rightarrow>
            interest_amount r = 0
            \<and> total_due_amount r = parseFloat (toFixed2 (fadd (parseFloat (115 / 100)) 0))
            \<and> (0 \<le> parseFloat (115 / 100) \<and> parseFloat (115 / 100) \<le> 10 ^ 12
                  \<and> decimalPlaces_le_2 (parseFloat (115 / 100))
                \<longrightarrow> total_due_amount r = parseFloat (115 / 100))"
    by blast
  then have "case calculateLoanDetails [''null'' \<mapsto> null_type_example] ''null''
              (parseFloat (115 / 100)) None of
         Inl e \<Rightarrow> False
       | Inr r \<Rightarrow> interest_amount r = 0 \<and> total_due_amount r = parseFloat (115 / 100)"
    using g by (auto split: sum.splits)
  with h g show ?thesis by blast
qed

section \<open>Repayment allocation: completeness\<close>

text \<open>
  C6: the allocation of a payment is complete: penalty, interest and principal
  allocations and the overpayment add up to the amount paid exactly; each bucket takes the
  minimum of what is left and what is outstanding, the principal last, and nothing is
  negative. Every payment above zero is allocated; a payment of zero or less is rejected.
\<close>

theorem allocation_complete:
  "(0 < amountPaid \<longrightarrow> \<not> isl (allocate out amountPaid))
   \<and> (case allocate out amountPaid of
         Inl e \<Rightarrow> amountPaid \<le> 0
       | Inr a \<Rightarrow>
           allocPenalty a + allocInterest a + allocPrincipal a + overpayment a = amountPaid
           \<and> allocPenalty a = min amountPaid (max 0 (penalty out))
           \<and> allocInterest a = min (amountPaid - allocPenalty a) (max 0 (interest out))
           \<and> allocPrincipal a
               = min (amountPaid - allocPenalty a - allocInterest a) (max 0 (principal out))
           \<and> 0 \<le> allocPenalty a \<and> 0 \<le> allocInterest a \<and> 0 \<le> allocPrincipal a
           \<and> 0 \<le> overpayment a)"
  by (simp add: allocate_def Let_def)

theorem allocation_complete_witness:
  "(0 < (120000 :: cents))
   \<and> \<not> isl (allocate \<lparr> penalty = 5000, interest = 20000, principal = 80000 \<rparr> 120000)
   \<and> allocate \<lparr> penalty = 5000, interest = 20000, principal = 80000 \<rparr> 120000
       = Inr \<lparr> allocPenalty = 5000, allocInterest = 20000, allocPrincipal = 80000,
               overpayment = 15000 \<rparr>
   \<and> (5000 :: cents) + 20000 + 80000 + 15000 = 120000"
proof -
  have h: "0 < (120000 :: cents)" by simp
  have v: "allocate \<lparr> penalty = 5000, interest = 20000, principal = 80000 \<rparr> 120000
       = Inr \<lparr> allocPenalty = 5000, allocInterest = 20000, allocPrincipal = 80000,
               overpayment = 15000 \<rparr>"
    by (simp add: allocate_def)
  from allocation_complete [of 120000 "\<lparr> penalty = 5000, interest = 20000, principal = 80000 \<rparr>"] h
  have "\<not> isl (allocate \<lparr> penalty = 5000, interest = 20000, principal = 80000 \<rparr> 120000)"
    by blast
  with h v show ?thesis by simp
qed

section \<open>The balance trigger and postings\<close>

lemma insert_entry_Inr:
  assumes "insert_vault_transaction_entry s e = Inr s'"
  shows "vault_transaction_entries s' = vault_transaction_entries s @ [e]"
    and "vault_transactions s' = vault_transactions s"
    and "\<exists>acc. vault_accounts s (vault_account_id e) = Some acc
           \<and> vault_accounts s' = (vault_accounts s)(vault_account_id e \<mapsto>
                acc\<lparr> current_balance := balance_after e \<rparr>)"
  using assms
  by (auto simp add: insert_vault_transaction_entry_def update_vault_balance_def
      split: if_splits option.splits)


lemma insert_transaction_Inr:
  assumes "insert_vault_transaction s t = Inr s'"
  shows "s' = s\<lparr> vault_transactions := vault_transactions s @ [t] \<rparr>"
  using assms by (auto simp add: insert_vault_transaction_def split: if_splits)



lemma post_entries_Inr:
  assumes "post_entries s tid rs = Inr s'"
  shows "vault_transactions s' = vault_transactions s
     \<and> (\<exists>new. vault_transaction_entries s' = vault_transaction_entries s @ new
           \<and> map (\<lambda>e. (transaction_id e, entry_kind e, amount e)) new
               = map (\<lambda>r. (tid, rq_kind r, rq_amount r)) rs)"
  using assms
proof (induction rs arbitrary: s)
  case Nil
  then show ?case by simp
next
  case (Cons r rs)
  from Cons.prems obtain acc s1 where
    acc: "vault_accounts s (rq_account r) = Some acc"
    and s1: "insert_vault_transaction_entry s
        \<lparr> transaction_id = tid, vault_account_id = rq_account r,
          entry_kind = rq_kind r, amount = rq_amount r,
          balance_after = current_balance acc
            + (case rq_kind r of Debit \<Rightarrow> - rq_amount r | Credit \<Rightarrow> rq_amount r) \<rparr> = Inr s1"
    and rest: "post_entries s1 tid rs = Inr s'"
    by (auto simp add: Let_def split: option.splits sum.splits if_splits)
  from Cons.IH [OF rest] obtain new where
    t: "vault_transactions s' = vault_transactions s1"
    and n: "vault_transaction_entries s' = vault_transaction_entries s1 @ new"
    and m: "map (\<lambda>e. (transaction_id e, entry_kind e, amount e)) new
               = map (\<lambda>r. (tid, rq_kind r, rq_amount r)) rs"
    by blast
  let ?e = "\<lparr> transaction_id = tid, vault_account_id = rq_account r,
          entry_kind = rq_kind r, amount = rq_amount r,
          balance_after = current_balance acc
            + (case rq_kind r of Debit \<Rightarrow> - rq_amount r | Credit \<Rightarrow> rq_amount r) \<rparr>"
  have "vault_transaction_entries s' = vault_transaction_entries s @ (?e # new)"
    using n insert_entry_Inr(1) [OF s1] by simp
  moreover have "map (\<lambda>e. (transaction_id e, entry_kind e, amount e)) (?e # new)
               = map (\<lambda>r. (tid, rq_kind r, rq_amount r)) (r # rs)"
    using m by simp
  moreover have "vault_transactions s' = vault_transactions s"
    using t insert_entry_Inr(2) [OF s1] by simp
  ultimately show ?case by blast
qed



lemma post_rejected:
  "isl (fst (post s kind rs)) \<Longrightarrow> snd (post s kind rs) = s"
  by (auto simp add: post_def Let_def split: if_splits sum.splits)

lemma post_accepted_cases:
  assumes "\<not> isl (fst (post s kind rs))"
  obtains txn s' where
    "txn = \<lparr> txn_id = length (vault_transactions s),
             transaction_code = Suc (length (vault_transactions s)), transaction_kind = kind,
             total_amount = debit_sum rs, status = Completed \<rparr>"
    "post_entries (s\<lparr> vault_transactions := vault_transactions s @ [txn] \<rparr>)
       (length (vault_transactions s)) rs = Inr s'"
    "post s kind rs = (Inr txn, s')"
    "rs \<noteq> []" "debit_sum rs = credit_sum rs"
proof -
  define txn where "txn = \<lparr> txn_id = length (vault_transactions s),
             transaction_code = Suc (length (vault_transactions s)), transaction_kind = kind,
             total_amount = debit_sum rs, status = Completed \<rparr>"
  from assms have pre: "rs \<noteq> []" "debit_sum rs = credit_sum rs"
    by (auto simp add: post_def split: if_splits)
  from assms obtain s1 where s1: "insert_vault_transaction s txn = Inr s1"
    by (auto simp add: post_def Let_def txn_def split: if_splits sum.splits)
  from assms s1 obtain s' where s': "post_entries s1 (length (vault_transactions s)) rs = Inr s'"
    and res: "post s kind rs = (Inr txn, s')"
    by (auto simp add: post_def Let_def txn_def split: if_splits sum.splits)
  from insert_transaction_Inr [OF s1] s'
  have pe: "post_entries (s\<lparr> vault_transactions := vault_transactions s @ [txn] \<rparr>)
       (length (vault_transactions s)) rs = Inr s'" by simp
  from that [OF txn_def pe res pre] show ?thesis .
qed






section \<open>Posting keeps the ledger balanced\<close>

lemma debit_total_append:
  "debit_total (xs @ ys) t = debit_total xs t + debit_total ys t"
  by (simp add: debit_total_def)

lemma credit_total_append:
  "credit_total (xs @ ys) t = credit_total xs t + credit_total ys t"
  by (simp add: credit_total_def)

lemma totals_of_new:
  assumes "map (\<lambda>e. (transaction_id e, entry_kind e, amount e)) new
             = map (\<lambda>r. (tid, rq_kind r, rq_amount r)) rs"
  shows "debit_total new t = (if t = tid then debit_sum rs else 0)"
    and "credit_total new t = (if t = tid then credit_sum rs else 0)"
  using assms
proof (induction new arbitrary: rs)
  case Nil
  { case 1 then show ?case by (simp add: debit_total_def debit_sum_def) }
  { case 2 then show ?case by (simp add: credit_total_def credit_sum_def) }
next
  case (Cons e new)
  { case 1
    then obtain r rs' where rs: "rs = r # rs'" by (cases rs) auto
    with 1 have m: "map (\<lambda>e. (transaction_id e, entry_kind e, amount e)) new
             = map (\<lambda>r. (tid, rq_kind r, rq_amount r)) rs'"
      and e: "transaction_id e = tid" "entry_kind e = rq_kind r" "amount e = rq_amount r"
      by auto
    from Cons.IH(1) [OF m] have ih: "debit_total new t = (if t = tid then debit_sum rs' else 0)" .
    have "debit_total (e # new) t
        = (if transaction_id e = t \<and> entry_kind e = Debit then amount e else 0) + debit_total new t"
      by (simp add: debit_total_def)
    then show ?case using ih e rs by (auto simp add: debit_sum_def) }
  { case 2
    then obtain r rs' where rs: "rs = r # rs'" by (cases rs) auto
    with 2 have m: "map (\<lambda>e. (transaction_id e, entry_kind e, amount e)) new
             = map (\<lambda>r. (tid, rq_kind r, rq_amount r)) rs'"
      and e: "transaction_id e = tid" "entry_kind e = rq_kind r" "amount e = rq_amount r"
      by auto
    from Cons.IH(2) [OF m] have ih: "credit_total new t = (if t = tid then credit_sum rs' else 0)" .
    have "credit_total (e # new) t
        = (if transaction_id e = t \<and> entry_kind e = Credit then amount e else 0) + credit_total new t"
      by (simp add: credit_total_def)
    then show ?case using ih e rs by (auto simp add: credit_sum_def) }
qed

lemma totals_of_unused:
  assumes "\<forall>e \<in> set es. transaction_id e < n"
  shows "debit_total es n = 0" "credit_total es n = 0"
proof -
  have "filter (\<lambda>e. transaction_id e = n \<and> entry_kind e = k) es = []" for k
    using assms by (auto simp add: filter_empty_conv)
  then show "debit_total es n = 0" "credit_total es n = 0"
    by (simp_all add: debit_total_def credit_total_def)
qed

lemma post_invariant:
  assumes "numbered s" "balanced s"
  shows "numbered (snd (post s kind rs)) \<and> balanced (snd (post s kind rs))"
proof (cases "isl (fst (post s kind rs))")
  case True
  then show ?thesis using assms by (simp add: post_rejected)
next
  case False
  define n where "n = length (vault_transactions s)"
  from False obtain txn s' where
    txn: "txn = \<lparr> txn_id = length (vault_transactions s),
             transaction_code = Suc (length (vault_transactions s)), transaction_kind = kind,
             total_amount = debit_sum rs, status = Completed \<rparr>"
    and pe: "post_entries (s\<lparr> vault_transactions := vault_transactions s @ [txn] \<rparr>)
           (length (vault_transactions s)) rs = Inr s'"
    and res: "post s kind rs = (Inr txn, s')"
    and eq: "debit_sum rs = credit_sum rs"
    by (rule post_accepted_cases)
  from post_entries_Inr [OF pe] obtain new where
    t: "vault_transactions s' = vault_transactions s @ [txn]"
    and e: "vault_transaction_entries s' = vault_transaction_entries s @ new"
    and m: "map (\<lambda>e. (transaction_id e, entry_kind e, amount e)) new
               = map (\<lambda>r. (n, rq_kind r, rq_amount r)) rs"
    by (auto simp add: n_def)
  have newid: "\<forall>x \<in> set new. transaction_id x = n"
  proof
    fix x assume "x \<in> set new"
    then have "(transaction_id x, entry_kind x, amount x)
        \<in> set (map (\<lambda>e. (transaction_id e, entry_kind e, amount e)) new)"
      by (simp add: image_iff) blast
    then show "transaction_id x = n" unfolding m by auto
  qed
  have old: "\<forall>x \<in> set (vault_transaction_entries s). transaction_id x < n"
    and oldt: "\<forall>x \<in> set (vault_transactions s). txn_id x < n"
    using assms(1) by (simp_all add: numbered_def n_def)
  have tid: "txn_id txn = n" by (simp add: txn n_def)
  have num: "numbered s'"
    using old oldt newid tid by (auto simp add: numbered_def t e n_def [symmetric] less_Suc_eq)
  have bal: "balanced s'"
    unfolding balanced_def
  proof
    fix x assume "x \<in> set (vault_transactions s')"
    then consider "x \<in> set (vault_transactions s)" | "x = txn" by (auto simp add: t)
    then show "debit_total (vault_transaction_entries s') (txn_id x)
        = credit_total (vault_transaction_entries s') (txn_id x)"
    proof cases
      case 1
      then have "txn_id x \<noteq> n" using oldt by auto
      moreover have "debit_total (vault_transaction_entries s) (txn_id x)
          = credit_total (vault_transaction_entries s) (txn_id x)"
        using assms(2) 1 by (simp add: balanced_def)
      ultimately show ?thesis
        by (simp add: e debit_total_append credit_total_append totals_of_new [OF m])
    next
      case 2
      then have "txn_id x = n" by (simp add: tid)
      then show ?thesis
        using eq by (simp add: e debit_total_append credit_total_append totals_of_new [OF m]
            totals_of_unused [OF old])
    qed
  qed
  from num bal res show ?thesis by simp
qed

lemma post_all_invariant:
  assumes "numbered s" "balanced s"
  shows "numbered (post_all s reqs) \<and> balanced (post_all s reqs)"
  using assms
proof (induction reqs arbitrary: s)
  case Nil
  then show ?case by simp
next
  case (Cons req reqs)
  obtain kind rs where req: "req = (kind, rs)" by (cases req)
  from post_invariant [OF Cons.prems] have
    "numbered (snd (post s kind rs))" "balanced (snd (post s kind rs))" by blast+
  then show ?case using Cons.IH by (simp add: req)
qed

text \<open>
  C7: a posting whose entries are empty, do not balance or hold an amount that is not
  strictly positive is rejected as a constraint violation; a rejected posting, whatever
  the error, leaves the ledger as it was; posting keeps every stored transaction
  balanced, debit total equal to credit total, so in every ledger reached by postings
  from one without transactions every transaction is balanced.
\<close>

theorem posted_transactions_balanced:
  "(rs = [] \<or> debit_sum rs \<noteq> credit_sum rs \<or> (\<exists>r \<in> set rs. rq_amount r \<le> 0)
      \<longrightarrow> post s kind rs = (Inl ConstraintViolation, s))
   \<and> (isl (fst (post s kind rs)) \<longrightarrow> snd (post s kind rs) = s)
   \<and> (numbered s \<and> balanced s
      \<longrightarrow> numbered (snd (post s kind rs)) \<and> balanced (snd (post s kind rs)))
   \<and> (vault_transactions s = [] \<and> vault_transaction_entries s = []
      \<longrightarrow> balanced (post_all s reqs))"
proof (intro conjI impI)
  assume "rs = [] \<or> debit_sum rs \<noteq> credit_sum rs \<or> (\<exists>r \<in> set rs. rq_amount r \<le> 0)"
  then show "post s kind rs = (Inl ConstraintViolation, s)" by (auto simp add: post_def)
next
  assume "isl (fst (post s kind rs))"
  then show "snd (post s kind rs) = s" by (rule post_rejected)
next
  assume a: "numbered s \<and> balanced s"
  then show "numbered (snd (post s kind rs))" "balanced (snd (post s kind rs))"
    using post_invariant by blast+
next
  assume "vault_transactions s = [] \<and> vault_transaction_entries s = []"
  then have "numbered s" "balanced s" by (simp_all add: numbered_def balanced_def)
  then show "balanced (post_all s reqs)" using post_all_invariant by blast
qed

theorem posted_transactions_balanced_witness:
  "([\<lparr> rq_account = 3, rq_kind = Debit, rq_amount = 100000 \<rparr>] = []
      \<or> debit_sum [\<lparr> rq_account = 3, rq_kind = Debit, rq_amount = 100000 \<rparr>]
          \<noteq> credit_sum [\<lparr> rq_account = 3, rq_kind = Debit, rq_amount = 100000 \<rparr>]
      \<or> (\<exists>r \<in> set [\<lparr> rq_account = 3, rq_kind = Debit, rq_amount = 100000 \<rparr>]. rq_amount r \<le> 0))
   \<and> post opening_ledger Loan_disbursement
        [\<lparr> rq_account = 3, rq_kind = Debit, rq_amount = 100000 \<rparr>]
       = (Inl ConstraintViolation, opening_ledger)
   \<and> isl (fst (post seed_ledger Loan_disbursement disbursement_1000))
   \<and> snd (post seed_ledger Loan_disbursement disbursement_1000) = seed_ledger
   \<and> (numbered opening_ledger \<and> balanced opening_ledger)
   \<and> \<not> isl (fst (post opening_ledger Loan_disbursement disbursement_1000))
   \<and> numbered (snd (post opening_ledger Loan_disbursement disbursement_1000))
   \<and> balanced (snd (post opening_ledger Loan_disbursement disbursement_1000))
   \<and> (vault_transactions opening_ledger = [] \<and> vault_transaction_entries opening_ledger = [])
   \<and> balanced (post_all opening_ledger
        [(Loan_disbursement, disbursement_1000), (Bank_deposit, deposit_300)])
   \<and> map (\<lambda>t. (txn_id t, total_amount t))
        (vault_transactions (post_all opening_ledger
          [(Loan_disbursement, disbursement_1000), (Bank_deposit, deposit_300)]))
       = [(0, 100000), (1, 30000)]"
  (is "?H1 \<and> ?C1 \<and> ?H2 \<and> ?C2 \<and> ?H3 \<and> ?A \<and> ?C3a \<and> ?C3b \<and> ?H4 \<and> ?C4 \<and> ?V")
proof -
  have h1: ?H1 by code_simp
  have h2: ?H2 by code_simp
  have h3: ?H3 by code_simp
  have h4: ?H4 by code_simp
  have a: ?A by code_simp
  have v: ?V by code_simp
  note bad = posted_transactions_balanced [of "[\<lparr> rq_account = 3, rq_kind = Debit, rq_amount = 100000 \<rparr>]"
      opening_ledger Loan_disbursement]
  note over = posted_transactions_balanced [of disbursement_1000 seed_ledger Loan_disbursement]
  note good = posted_transactions_balanced [of disbursement_1000 opening_ledger Loan_disbursement
      "[(Loan_disbursement, disbursement_1000), (Bank_deposit, deposit_300)]"]
  from bad h1 have c1: ?C1 by blast
  from over h2 have c2: ?C2 by blast
  from good h3 have c3: "?C3a \<and> ?C3b" by blast
  from good h4 have c4: ?C4 by blast
  from h1 c1 h2 c2 h3 a c3 h4 c4 v show ?thesis by blast
qed

end
